theory Spec2Isabelle
  imports Complex_Main "HOL-Library.AList" "HOL-Library.Char_ord" "HOL-Library.List_Lexorder"
    "HOL-Library.Product_Lexorder"
begin

section \<open>Python values, strings and diagnostics\<close>

text \<open>
  Strings are modelled as ASCII byte strings.  The exceptions that the modelled code can raise
  by itself are the cases of \<open>py_error\<close>; a fault of a download is the result \<open>None\<close> of the
  download collaborator.
\<close>

datatype py_error = ValueError | AttributeError | IndexError | KeyError

text \<open>One record handed to the logger: its severity and the formatted message.\<close>

datatype log_entry = Info string | Warning string | Error string

text \<open>The value of a table cell: null, an integer, or the raw text of a streamed cell.\<close>

datatype pyval = NoneV | IntV int | StrV string

text \<open>\<open>str.lower\<close> and \<open>str.upper\<close> on ASCII.\<close>

definition lower_char :: "char \<Rightarrow> char" where
  "lower_char c =
     (case map_of (zip ''ABCDEFGHIJKLMNOPQRSTUVWXYZ'' ''abcdefghijklmnopqrstuvwxyz'') c of
        Some d \<Rightarrow> d | None \<Rightarrow> c)"

definition upper_char :: "char \<Rightarrow> char" where
  "upper_char c =
     (case map_of (zip ''abcdefghijklmnopqrstuvwxyz'' ''ABCDEFGHIJKLMNOPQRSTUVWXYZ'') c of
        Some d \<Rightarrow> d | None \<Rightarrow> c)"

definition lower :: "string \<Rightarrow> string" where
  "lower s = map lower_char s"

definition upper :: "string \<Rightarrow> string" where
  "upper s = map upper_char s"

definition is_digit :: "char \<Rightarrow> bool" where
  "is_digit c = (c \<in> set ''0123456789'')"

text \<open>\<open>str(n)\<close> for an integer: decimal digits, most significant first, no leading zero.\<close>

definition digit_char :: "nat \<Rightarrow> char" where
  "digit_char d = ''0123456789'' ! d"

function str_nat :: "nat \<Rightarrow> string" where
  "str_nat n = (if n < 10 then [digit_char n] else str_nat (n div 10) @ [digit_char (n mod 10)])"
  by pat_completeness auto
termination
  by (relation "measure id") auto

declare str_nat.simps [simp del]

definition str_int :: "int \<Rightarrow> string" where
  "str_int i = (if i < 0 then CHR ''-'' # str_nat (nat (- i)) else str_nat (nat i))"

text \<open>\<open>int(s)\<close> on a string of decimal digits.\<close>

definition digit_val :: "char \<Rightarrow> nat" where
  "digit_val c = (case map_of (zip ''0123456789'' [0, 1, 2, 3, 4, 5, 6, 7, 8, 9]) c of
                    Some d \<Rightarrow> d | None \<Rightarrow> 0)"

definition int_of_digits :: "string \<Rightarrow> nat" where
  "int_of_digits s = foldl (\<lambda>a c. 10 * a + digit_val c) 0 s"

text \<open>\<open>s.startswith(p)\<close> and the substring test \<open>sub in s\<close>.\<close>

definition starts_with :: "string \<Rightarrow> string \<Rightarrow> bool" where
  "starts_with p s = (take (length p) s = p)"

fun contains :: "string \<Rightarrow> string \<Rightarrow> bool" where
  "contains sub [] = (sub = [])"
| "contains sub (c # cs) = (starts_with sub (c # cs) \<or> contains sub cs)"

text \<open>\<open>s.replace(''#'', t)\<close>: every occurrence of the one-character placeholder is replaced.\<close>

definition replace_hash :: "string \<Rightarrow> string \<Rightarrow> string" where
  "replace_hash t s = concat (map (\<lambda>c. if c = CHR ''#'' then t else [c]) s)"

section \<open>The regular expressions of \<open>find_resource\<close>\<close>

text \<open>
  \<open>re.findall("(?<!\d)\d{4}(?!\d)", name)\<close>: the matches are exactly the maximal runs of
  digits of the name that are four digits long, from left to right.  \<open>digit_runs cur s\<close> cuts
  \<open>s\<close> into its maximal runs of digits, \<open>cur\<close> being the run that is open.
\<close>

fun digit_runs :: "string \<Rightarrow> string \<Rightarrow> string list" where
  "digit_runs cur [] = (if cur = [] then [] else [cur])"
| "digit_runs cur (c # cs) =
     (if is_digit c then digit_runs (cur @ [c]) cs
      else (if cur = [] then [] else [cur]) @ digit_runs [] cs)"

definition findall_year :: "string \<Rightarrow> string list" where
  "findall_year s = filter (\<lambda>r. length r = 4) (digit_runs [] s)"

text \<open>
  \<open>re.match("(?<!\d)\d{4}_constrained", name, re.IGNORECASE)\<close>: \<open>re.match\<close> anchors at the
  start of the name, where the look-behind holds; four digits and the literal follow.
\<close>

definition constrained_match :: "string \<Rightarrow> bool" where
  "constrained_match s =
     (4 \<le> length s \<and> list_all is_digit (take 4 s) \<and> starts_with ''_constrained'' (lower (drop 4 s)))"

text \<open>
  \<open>re.match(".*adm(in)?L.*", name, re.IGNORECASE)\<close> where \<open>L\<close> is \<open>str(level)\<close>: some position
  of the name starts with \<open>admL\<close> or \<open>adminL\<close>, case ignored, and no newline stands before
  it (the dot does not match a newline).  The first argument is \<open>L\<close>, the second the name in
  lower case.
\<close>

fun adm_match :: "string \<Rightarrow> string \<Rightarrow> bool" where
  "adm_match l [] = False"
| "adm_match l (c # cs) =
     (starts_with (''adm'' @ l) (c # cs) \<or> starts_with (''admin'' @ l) (c # cs) \<or>
      (c \<noteq> CHR 0x0A \<and> adm_match l cs))"

section \<open>Data model\<close>

text \<open>A resource of a dataset: \<open>r["name"]\<close>, \<open>r.get_file_type()\<close> and \<open>r["url"]\<close>.\<close>

record resource =
  name :: string
  file_type :: string
  url :: string

text \<open>
  A row of the overall population table: the label of the row in the index of its data frame,
  and the columns that the code reads or writes.  A row of the boundary table has the polygon
  in addition.
\<close>

record pop_row =
  idx :: nat
  alpha_3 :: string
  ADM_LEVEL :: int
  ADM_PCODE :: string
  Population :: pyval

record 'g boundary = pop_row +
  geometry :: 'g

text \<open>The configuration: \<open>dataset_exceptions\<close>, \<open>resource_exceptions\<close> and \<open>pcode_mappings\<close>.\<close>

record configuration =
  dataset_exceptions :: "string \<rightharpoonup> string"
  resource_exceptions :: "string \<rightharpoonup> string"
  pcode_mappings :: "string list"

text \<open>
  The collaborators outside the source file, as parameters:
  \<^item> \<open>read_from_hdx\<close>: \<open>Dataset.read_from_hdx\<close> followed by \<open>get_resources\<close>; \<open>None\<close> when
    the catalog has no dataset of that name;
  \<^item> \<open>country_slug\<close>: \<open>slugify(Country.get_country_name_from_iso3(iso))\<close>;
  \<^item> \<open>re_match\<close>: \<open>bool(re.match(pattern, name, re.IGNORECASE))\<close> for a configured pattern;
  \<^item> \<open>download\<close>: \<open>resource.download\<close>, \<open>None\<close> when it raises \<open>DownloadError\<close>;
  \<^item> \<open>zonal_sum\<close>: the \<open>sum\<close> that \<open>zonal_stats\<close> attaches to a polygon, \<open>None\<close> when it is
    undefined; a finite float is the rational number it denotes;
  \<^item> \<open>get_tabular_rows\<close>: the headers and the rows of a tabular resource, a row in dictionary
    form giving a cell for each header;
  \<^item> \<open>read_csv\<close>: the rows of the downloaded overall table, in file order;
  \<^item> \<open>list_of_set\<close>: the order in which \<open>list(set(xs))\<close> enumerates the distinct elements.
\<close>

record ('g, 'p) collaborators =
  read_from_hdx :: "string \<Rightarrow> resource list option"
  country_slug :: "string \<Rightarrow> string"
  re_match :: "string \<Rightarrow> string \<Rightarrow> bool"
  download :: "resource \<Rightarrow> 'p option"
  zonal_sum :: "'p \<Rightarrow> 'g \<Rightarrow> rat option"
  get_tabular_rows :: "string \<Rightarrow> string list \<times> (string \<Rightarrow> pyval) list"
  read_csv :: "'p \<Rightarrow> pop_row list"
  list_of_set :: "int list \<Rightarrow> int list"

section \<open>\<open>find_resource\<close>\<close>

text \<open>The test of a tabular resource's name: the configured pattern of the country, or the
  pattern of the level.\<close>

definition resource_match ::
    "('g, 'p) collaborators \<Rightarrow> configuration \<Rightarrow> string \<Rightarrow> int \<Rightarrow> string \<Rightarrow> bool" where
  "resource_match env cfg iso3 level nm =
     (case resource_exceptions cfg iso3 of
        Some pat \<Rightarrow> re_match env (''.*'' @ pat @ ''.*'') nm
      | None \<Rightarrow> adm_match (str_int level) (lower nm))"

text \<open>\<open>max\<close> of a list; the caller handles the empty list, where Python raises.\<close>

fun max_list :: "nat list \<Rightarrow> nat" where
  "max_list [] = 0"
| "max_list [x] = x"
| "max_list (x # y # ys) = max x (max_list (y # ys))"

text \<open>
  Lines 45 to 57: with more than one candidate, the year tokens of all candidates are
  collected; \<open>max\<close> of no token raises \<open>ValueError\<close>; the candidates whose name contains
  the decimal text of the greatest year replace the list only when there is exactly one.
\<close>

definition narrow_by_year :: "resource list \<Rightarrow> py_error + resource list" where
  "narrow_by_year pop_resource =
     (if length pop_resource > 1 then
        (let yearmatches = map int_of_digits (concat (map (\<lambda>r. findall_year (name r)) pop_resource))
         in if yearmatches = [] then Inl ValueError
            else (let maxyear = filter (\<lambda>r. contains (str_nat (max_list yearmatches)) (name r))
                                  pop_resource
                  in Inr (if length maxyear = 1 then maxyear else pop_resource)))
      else Inr pop_resource)"

definition find_resource ::
    "('g, 'p) collaborators \<Rightarrow> configuration \<Rightarrow> string \<Rightarrow> int \<Rightarrow>
       log_entry list \<times> (py_error + resource option \<times> string)" where
  "find_resource env cfg iso3 level =
     (case read_from_hdx env
             (case dataset_exceptions cfg iso3 of Some n \<Rightarrow> n | None \<Rightarrow> ''cod-ps-'' @ lower iso3) of
        None \<Rightarrow>
          (let logs = [Warning (iso3 @ '': Could not find PS dataset'')] in
           case read_from_hdx env (''worldpop-population-counts-for-'' @ country_slug env iso3) of
             None \<Rightarrow> (logs, Inl AttributeError)
           | Some resources \<Rightarrow>
               (case filter (\<lambda>r. file_type r = ''geotiff'' \<and> constrained_match (name r)) resources of
                  [] \<Rightarrow> (logs, Inr (None, ''geotiff''))
                | r # _ \<Rightarrow> (logs, Inr (Some r, ''geotiff''))))
      | Some resources \<Rightarrow>
          (case filter (\<lambda>r. file_type r = ''csv'' \<and> resource_match env cfg iso3 level (name r))
                  resources of
             [] \<Rightarrow> ([Warning (iso3 @ '': Could not find csv resource at adm'' @ str_int level)],
                    Inr (None, ''geotiff''))
           | r # rs \<Rightarrow>
               (case narrow_by_year (r # rs) of
                  Inl e \<Rightarrow> ([], Inl e)
                | Inr [] \<Rightarrow> ([], Inl IndexError)
                | Inr (r' # rs') \<Rightarrow>
                    (if length (r' # rs') > 1
                     then [Warning (iso3 @ '': Found multiple resources, using first in list'')]
                     else [],
                     Inr (Some r', ''csv'')))))"

section \<open>\<open>analyze_raster\<close>\<close>

text \<open>
  \<open>int(round(pop, 0))\<close> for a finite float: the nearest integer, and of the two nearest
  integers the even one when \<open>pop\<close> lies half way between them.
\<close>

definition py_round :: "rat \<Rightarrow> int" where
  "py_round x =
     (let f = \<lfloor>x\<rfloor>; d = x - of_int f
      in if d < 1 / 2 then f else if 1 / 2 < d then f + 1 else if even f then f else f + 1)"

text \<open>
  \<open>self.boundaries.loc[self.boundaries["ADM_PCODE"] == pcode, "Population"] = pop\<close>: the
  assignment goes to every row of the table whose pcode equals the given value, whatever its
  country and level.
\<close>

definition set_population :: "pyval \<Rightarrow> pyval \<Rightarrow> 'g boundary list \<Rightarrow> 'g boundary list" where
  "set_population pcode pop b =
     map (\<lambda>r. if StrV (ADM_PCODE r) = pcode then r\<lparr>Population := pop\<rparr> else r) b"

text \<open>The body of the loop over \<open>pop_stats\<close>; a row is the pcode and the sum of a polygon.
  \<open>if pop:\<close> is false for \<open>None\<close> and for zero.\<close>

definition raster_row :: "'g boundary list \<Rightarrow> string \<times> rat option \<Rightarrow> 'g boundary list" where
  "raster_row b row =
     (case snd row of
        None \<Rightarrow> b
      | Some pop \<Rightarrow> if pop \<noteq> 0 then set_population (StrV (fst row)) (IntV (py_round pop)) b else b)"

text \<open>\<open>zonal_stats\<close> on the rows of the country and level, with the properties of each
  polygon kept.\<close>

definition pop_stats ::
    "('g, 'p) collaborators \<Rightarrow> 'p \<Rightarrow> 'g boundary list \<Rightarrow> string \<Rightarrow> int \<Rightarrow> (string \<times> rat option) list" where
  "pop_stats env pop_raster b iso3 level =
     map (\<lambda>r. (ADM_PCODE r, zonal_sum env pop_raster (geometry r)))
       (filter (\<lambda>r. alpha_3 r = iso3 \<and> ADM_LEVEL r = level) b)"

text \<open>The result is the boundary table after the call, the diagnostics of the call and the
  value returned: the country code, or \<open>None\<close>.\<close>

definition analyze_raster ::
    "('g, 'p) collaborators \<Rightarrow> 'g boundary list \<Rightarrow> resource \<Rightarrow> string \<Rightarrow> int \<Rightarrow>
       'g boundary list \<times> log_entry list \<times> string option" where
  "analyze_raster env b resource iso3 level =
     (case download env resource of
        None \<Rightarrow> (b, [Error (iso3 @ '': Could not download geotiff'')], None)
      | Some pop_raster \<Rightarrow>
          (foldl raster_row b (pop_stats env pop_raster b iso3 level), [], Some iso3))"

section \<open>\<open>analyze_tabular\<close>\<close>

text \<open>Truth value of a variable that holds \<open>None\<close> or a string.\<close>

definition truthy :: "string option \<Rightarrow> bool" where
  "truthy h = (case h of None \<Rightarrow> False | Some s \<Rightarrow> s \<noteq> [])"

text \<open>\<open>str(v)\<close> of a cell, as an f-string formats it.\<close>

definition str_pyval :: "pyval \<Rightarrow> string" where
  "str_pyval v = (case v of NoneV \<Rightarrow> ''None'' | IntV i \<Rightarrow> str_int i | StrV s \<Rightarrow> s)"

text \<open>The body of the loop over the headers; \<open>names\<close> is the list of the configured templates
  with the level put in.\<close>

definition header_step ::
    "string list \<Rightarrow> string option \<times> string option \<Rightarrow> string \<Rightarrow> string option \<times> string option" where
  "header_step names hs header =
     (if \<not> truthy (fst hs) \<and> upper header \<in> set names then Some header else fst hs,
      if \<not> truthy (snd hs) \<and> upper header = ''T_TL'' then Some header else snd hs)"

definition resolve_headers ::
    "configuration \<Rightarrow> int \<Rightarrow> string list \<Rightarrow> string option \<times> string option" where
  "resolve_headers cfg level headers =
     foldl (header_step (map (replace_hash (str_int level)) (pcode_mappings cfg))) (None, None) headers"

text \<open>\<open>list(self.boundaries["ADM_PCODE"])\<close>, as cell values: the pcodes of the whole table.\<close>

definition known_pcodes :: "'g boundary list \<Rightarrow> pyval list" where
  "known_pcodes b = map (\<lambda>r. StrV (ADM_PCODE r)) b"

definition unit_warning :: "string \<Rightarrow> int \<Rightarrow> pyval \<Rightarrow> log_entry" where
  "unit_warning iso3 level pcode =
     Warning (iso3 @ '': Could not find unit '' @ str_pyval pcode @ '' in boundaries at adm'' @
              str_int level)"

text \<open>The body of the loop over the rows: the state is the table, the diagnostics so far and
  the flag \<open>updated\<close>.\<close>

definition tabular_row ::
    "string \<Rightarrow> int \<Rightarrow> string \<Rightarrow> string \<Rightarrow> 'g boundary list \<times> log_entry list \<times> bool \<Rightarrow>
       (string \<Rightarrow> pyval) \<Rightarrow> 'g boundary list \<times> log_entry list \<times> bool" where
  "tabular_row iso3 level pcode_header pop_header st row =
     (case st of (b, logs, updated) \<Rightarrow>
        (let pcode = row pcode_header; pop = row pop_header
         in if pcode \<notin> set (known_pcodes b)
            then (b, logs @ [unit_warning iso3 level pcode], updated)
            else (set_population pcode pop b, logs, True)))"

definition analyze_tabular ::
    "('g, 'p) collaborators \<Rightarrow> configuration \<Rightarrow> 'g boundary list \<Rightarrow> resource \<Rightarrow> string \<Rightarrow> int \<Rightarrow>
       'g boundary list \<times> log_entry list \<times> string option" where
  "analyze_tabular env cfg b resource iso3 level =
     (case get_tabular_rows env (url resource) of (headers, rows) \<Rightarrow>
        (case resolve_headers cfg level headers of (pcode_header, pop_header) \<Rightarrow>
           if \<not> truthy pcode_header
           then (b, [Error (iso3 @ '': Could not find pcode header at adm'' @ str_int level)], None)
           else if \<not> truthy pop_header
           then (b, [Error (iso3 @ '': Could not find pop header at adm'' @ str_int level)], None)
           else (case foldl (tabular_row iso3 level (the pcode_header) (the pop_header))
                        (b, [], False) rows of
                   (b', logs, updated) \<Rightarrow> (b', logs, if updated then Some iso3 else None))))"

section \<open>\<open>update_population\<close>\<close>













section \<open>\<open>update_hdx_resource\<close>\<close>

text \<open>\<open>read_csv\<close> labels the rows of the file with their positions.\<close>

definition range_index :: "pop_row list \<Rightarrow> pop_row list" where
  "range_index rows = map (\<lambda>(i, r). r\<lparr>idx := i\<rparr>) (zip [0..<length rows] rows)"

text \<open>\<open>self.boundaries.drop(columns="geometry")\<close>: the rows keep their labels.\<close>

definition drop_geometry :: "'g boundary \<Rightarrow> pop_row" where
  "drop_geometry r =
     \<lparr>idx = idx r, alpha_3 = alpha_3 r, ADM_LEVEL = ADM_LEVEL r, ADM_PCODE = ADM_PCODE r,
      Population = Population r\<rparr>"

text \<open>The rows that the mask of a level selects in a table.\<close>

definition in_slice :: "int \<Rightarrow> string list \<Rightarrow> 'a pop_row_scheme \<Rightarrow> bool" where
  "in_slice level isos r = (alpha_3 r \<in> set isos \<and> ADM_LEVEL r = level)"

text \<open>
  The body of the loop over the keys of \<open>updated_countries\<close>.  \<open>pop_data.drop(labels)\<close>
  removes every row of \<open>pop_data\<close> whose label is among the labels of the masked rows;
  \<open>concat\<close> appends the rows of the slice of \<open>updated_data\<close> with the labels they have.
\<close>

definition merge_level :: "pop_row list \<Rightarrow> pop_row list \<Rightarrow> int \<times> string list \<Rightarrow> pop_row list" where
  "merge_level updated_data pop_data entry =
     (let labels = map idx (filter (in_slice (fst entry) (snd entry)) pop_data)
      in filter (\<lambda>r. idx r \<notin> set labels) pop_data @
         filter (in_slice (fst entry) (snd entry)) updated_data)"

definition sort_values :: "pop_row list \<Rightarrow> pop_row list" where
  "sort_values rows = sort_key (\<lambda>r. (alpha_3 r, ADM_LEVEL r, ADM_PCODE r)) rows"

definition update_hdx_resource ::
    "('g, 'p) collaborators \<Rightarrow> 'g boundary list \<Rightarrow> string \<Rightarrow> (int \<times> string list) list \<Rightarrow>
       log_entry list \<times> (py_error + pop_row list option \<times> resource option)" where
  "update_hdx_resource env b dataset_name updated_countries =
     (case read_from_hdx env dataset_name of
        None \<Rightarrow> ([Error ''Could not find overall pop dataset''], Inr (None, None))
      | Some [] \<Rightarrow> ([], Inl IndexError)
      | Some (resource # _) \<Rightarrow>
          (case download env resource of
             None \<Rightarrow> ([Error ''Could not download population csv''], Inr (None, None))
           | Some path \<Rightarrow>
               ([], Inr (Some (sort_values
                                (foldl (merge_level (map drop_geometry b))
                                   (range_index (read_csv env path)) updated_countries)),
                         Some resource))))"

section \<open>The specification's wording, for comparison\<close>

text \<open>
  The selection among several tabular candidates as the specification words it: the year
  tokens of the names are collected, only the candidates whose name refers to the greatest
  year are kept, and the first of those is chosen.
\<close>

definition spec_keep_max_year :: "resource list \<Rightarrow> resource list" where
  "spec_keep_max_year cands =
     (let years = map int_of_digits (concat (map (\<lambda>r. findall_year (name r)) cands))
      in filter (\<lambda>r. contains (str_nat (max_list years)) (name r)) cands)"

definition spec_select :: "resource list \<Rightarrow> resource option" where
  "spec_select cands = (case spec_keep_max_year cands of [] \<Rightarrow> None | r # _ \<Rightarrow> Some r)"

text \<open>Rounding to the nearest integer with a tie going up.\<close>

definition round_half_up :: "rat \<Rightarrow> int" where
  "round_half_up x = \<lfloor>x + 1 / 2\<rfloor>"

text \<open>
  The merge as the specification words it: the prior rows of every updated slice are removed,
  the fresh rows of exactly those slices are appended, and the result is sorted.
\<close>

definition spec_merge :: "pop_row list \<Rightarrow> pop_row list \<Rightarrow> (int \<times> string list) list \<Rightarrow> pop_row list" where
  "spec_merge updated_data prior updated_countries =
     sort_values
       (filter (\<lambda>r. \<not> list_ex (\<lambda>e. in_slice (fst e) (snd e) r) updated_countries) prior @
        concat (map (\<lambda>e. filter (in_slice (fst e) (snd e)) updated_data) updated_countries))"

text \<open>The pcodes of the boundary rows of one country and level, in table order.\<close>

definition scope_pcodes :: "'g boundary list \<Rightarrow> string \<Rightarrow> int \<Rightarrow> string list" where
  "scope_pcodes b iso3 level =
     map ADM_PCODE (filter (\<lambda>r. alpha_3 r = iso3 \<and> ADM_LEVEL r = level) b)"

section \<open>Concrete inputs\<close>

definition cfg0 :: configuration where
  "cfg0 = \<lparr>dataset_exceptions = Map.empty, resource_exceptions = Map.empty,
            pcode_mappings = [''ADM#_PCODE'', ''ADM#PCODE'']\<rparr>"

text \<open>A catalog without any dataset, downloads that fail, and nothing to stream.\<close>

definition env_base :: "(nat, string) collaborators" where
  "env_base = \<lparr>read_from_hdx = (\<lambda>_. None), country_slug = (\<lambda>_. ''kenya''),
     re_match = (\<lambda>_ _. False), download = (\<lambda>_. None), zonal_sum = (\<lambda>_ _. None),
     get_tabular_rows = (\<lambda>_. ([], [])), read_csv = (\<lambda>_. []), list_of_set = remdups\<rparr>"

definition ken1 :: "nat boundary" where
  "ken1 = \<lparr>idx = 0, alpha_3 = ''KEN'', ADM_LEVEL = 1, ADM_PCODE = ''KE01'', Population = NoneV,
           geometry = 0\<rparr>"

definition uga1 :: "nat boundary" where
  "uga1 = \<lparr>idx = 1, alpha_3 = ''UGA'', ADM_LEVEL = 1, ADM_PCODE = ''UG01'', Population = NoneV,
           geometry = 1\<rparr>"

text \<open>Two tabular resources of level 1 whose names carry no year.\<close>

definition csv_a :: resource where
  "csv_a = \<lparr>name = ''ken_adm1_pop_a.csv'', file_type = ''csv'', url = ''https://data/a.csv''\<rparr>"

definition csv_b :: resource where
  "csv_b = \<lparr>name = ''KEN_Admin1_pop_b.csv'', file_type = ''csv'', url = ''https://data/b.csv''\<rparr>"

definition env_no_year :: "(nat, string) collaborators" where
  "env_no_year =
     env_base\<lparr>read_from_hdx := (\<lambda>n. if n = ''cod-ps-ken'' then Some [csv_a, csv_b] else None)\<rparr>"

text \<open>Tabular resources of level 1 named for the years 2019 and 2021.\<close>

definition csv_2019 :: resource where
  "csv_2019 = \<lparr>name = ''ken_adm1_pop_2019.csv'', file_type = ''csv'', url = ''https://data/2019.csv''\<rparr>"

definition csv_2021 :: resource where
  "csv_2021 = \<lparr>name = ''ken_adm1_pop_2021.csv'', file_type = ''csv'', url = ''https://data/2021.csv''\<rparr>"

definition csv_2021_v2 :: resource where
  "csv_2021_v2 =
     \<lparr>name = ''ken_adm1_pop_2021_v2.csv'', file_type = ''csv'', url = ''https://data/2021v2.csv''\<rparr>"

definition env_years :: "(nat, string) collaborators" where
  "env_years =
     env_base\<lparr>read_from_hdx := (\<lambda>n. if n = ''cod-ps-ken'' then Some [csv_2019, csv_2021] else None)\<rparr>"

definition env_tie :: "(nat, string) collaborators" where
  "env_tie =
     env_base\<lparr>read_from_hdx :=
       (\<lambda>n. if n = ''cod-ps-ken'' then Some [csv_2019, csv_2021, csv_2021_v2] else None)\<rparr>"

text \<open>Streamed rows with the headers \<open>ADM1_PCODE\<close> and \<open>T_TL\<close>.\<close>

definition tab_row :: "string \<Rightarrow> string \<Rightarrow> string \<Rightarrow> pyval" where
  "tab_row pcode pop h =
     (if h = ''ADM1_PCODE'' then StrV pcode else if h = ''T_TL'' then StrV pop else NoneV)"

definition env_tab :: "(nat, string) collaborators" where
  "env_tab =
     env_base\<lparr>get_tabular_rows := (\<lambda>_. ([''ADM1_PCODE'', ''T_TL''], [tab_row ''UG01'' ''777'']))\<rparr>"

definition env_tab2 :: "(nat, string) collaborators" where
  "env_tab2 =
     env_base\<lparr>get_tabular_rows :=
       (\<lambda>_. ([''ADM1_PCODE'', ''T_TL''], [tab_row ''UG01'' ''777'', tab_row ''KE01'' ''500000'']))\<rparr>"

definition env_tab3 :: "(nat, string) collaborators" where
  "env_tab3 =
     env_base\<lparr>get_tabular_rows :=
       (\<lambda>_. ([''ADM1_PCODE'', ''T_TL''],
             [tab_row ''UG01'' ''777'', tab_row ''KE01'' ''500000'', tab_row ''XX99'' ''1'']))\<rparr>"

definition env_no_pop_header :: "(nat, string) collaborators" where
  "env_no_pop_header =
     env_base\<lparr>get_tabular_rows := (\<lambda>_. ([''ADM1_PCODE'', ''TOTAL''], [tab_row ''KE01'' ''500000'']))\<rparr>"

text \<open>A raster whose download succeeds; the polygon of \<open>ken1\<close> has the given sum.\<close>

definition tif_res :: resource where
  "tif_res = \<lparr>name = ''2020_constrained.tif'', file_type = ''geotiff'', url = ''https://data/ken.tif''\<rparr>"

definition env_raster :: "rat option \<Rightarrow> (nat, string) collaborators" where
  "env_raster s =
     env_base\<lparr>download := (\<lambda>_. Some ''/tmp/ken.tif''),
               zonal_sum := (\<lambda>_ g. if g = 0 then s else None)\<rparr>"



text \<open>
  A merge of two levels.  The boundary table holds one unit of level 1 of \<open>AAA\<close> under the
  label 0 and one unit of level 2 of \<open>BBB\<close> under the label 1; the prior table, as \<open>read_csv\<close>
  delivers it, holds the old row of \<open>BBB\<close> first and the old row of \<open>AAA\<close> second.
\<close>

definition aaa1 :: "nat boundary" where
  "aaa1 = \<lparr>idx = 0, alpha_3 = ''AAA'', ADM_LEVEL = 1, ADM_PCODE = ''A1'', Population = IntV 11,
           geometry = 0\<rparr>"

definition bbb2 :: "nat boundary" where
  "bbb2 = \<lparr>idx = 1, alpha_3 = ''BBB'', ADM_LEVEL = 2, ADM_PCODE = ''B1'', Population = IntV 22,
           geometry = 1\<rparr>"

definition old_bbb2 :: pop_row where
  "old_bbb2 = \<lparr>idx = 0, alpha_3 = ''BBB'', ADM_LEVEL = 2, ADM_PCODE = ''B1'', Population = IntV 2\<rparr>"

definition old_aaa1 :: pop_row where
  "old_aaa1 = \<lparr>idx = 1, alpha_3 = ''AAA'', ADM_LEVEL = 1, ADM_PCODE = ''A1'', Population = IntV 1\<rparr>"

definition overall_res :: resource where
  "overall_res = \<lparr>name = ''population.csv'', file_type = ''csv'', url = ''https://data/population.csv''\<rparr>"

definition env_merge :: "(nat, string) collaborators" where
  "env_merge =
     env_base\<lparr>read_from_hdx := (\<lambda>n. if n = ''overall-pop'' then Some [overall_res] else None),
               download := (\<lambda>_. Some ''/tmp/population.csv''),
               read_csv := (\<lambda>_. [old_bbb2, old_aaa1])\<rparr>"

section \<open>Properties of \<open>find_resource\<close>\<close>

text \<open>
  Claim C1 says that \<open>find_resource\<close> never raises.  The code raises in two places.  When
  the dataset of the country holds two tabular resources of the level and no name carries a
  four-digit year, \<open>max\<close> is applied to the empty list of years (line 54) and the call ends
  with \<open>ValueError\<close>.  When neither the dataset of the country nor the gridded fallback
  dataset exists, \<open>get_resources\<close> is called on \<open>None\<close> (line 31) and the call ends with
  \<open>AttributeError\<close>.
\<close>

theorem find_resource_raises:
  "find_resource env_no_year cfg0 ''KEN'' 1 = ([], Inl ValueError) \<and>
   find_resource env_base cfg0 ''KEN'' 1 =
     ([Warning ''KEN: Could not find PS dataset''], Inl AttributeError)"
  by code_simp

lemma max_list_mem: "ys \<noteq> [] \<Longrightarrow> max_list ys \<in> set ys"
  by (induction ys rule: max_list.induct) (auto simp: max_def)

lemma max_list_upper: "y \<in> set ys \<Longrightarrow> y \<le> max_list ys"
  by (induction ys rule: max_list.induct) (auto simp: max_def)

text \<open>
  Claim C2, as amended.  Let more than one tabular resource match the pattern and let the
  names of the matching resources hold at least one four-digit year token.  The greatest
  year is taken over all tokens.  When exactly one matching resource has the decimal text
  of that year in its name, this resource is returned and no warning is emitted; otherwise
  (several such resources, or none) the list is not narrowed: the first matching resource
  in the order of the resource list is returned and a warning is emitted.
\<close>

theorem find_resource_year_choice:
  assumes "read_from_hdx env
             (case dataset_exceptions cfg iso3 of Some n \<Rightarrow> n | None \<Rightarrow> ''cod-ps-'' @ lower iso3) =
           Some resources"
    and "cands = filter (\<lambda>r. file_type r = ''csv'' \<and> resource_match env cfg iso3 level (name r)) resources"
    and "1 < length cands"
    and "years = map int_of_digits (concat (map (\<lambda>r. findall_year (name r)) cands))"
    and "years \<noteq> []"
    and "latest = filter (\<lambda>r. contains (str_nat (max_list years)) (name r)) cands"
  shows "max_list years \<in> set years \<and> (\<forall>y\<in>set years. y \<le> max_list years) \<and>
         find_resource env cfg iso3 level =
           (if length latest = 1 then ([], Inr (Some (hd latest), ''csv''))
            else ([Warning (iso3 @ '': Found multiple resources, using first in list'')],
                  Inr (Some (hd cands), ''csv'')))"
proof -
  obtain r rs where c: "cands = r # rs" and rs: "rs \<noteq> []"
    using assms(3) by (cases cands) auto
  have nb: "narrow_by_year cands = Inr (if length latest = 1 then latest else cands)"
    using assms(3-6) by (simp add: narrow_by_year_def Let_def)
  have fr: "find_resource env cfg iso3 level =
          (case narrow_by_year cands of
             Inl e \<Rightarrow> ([], Inl e)
           | Inr [] \<Rightarrow> ([], Inl IndexError)
           | Inr (r' # rs') \<Rightarrow>
               (if length (r' # rs') > 1
                then [Warning (iso3 @ '': Found multiple resources, using first in list'')]
                else [],
                Inr (Some r', ''csv'')))"
    using assms(1) c assms(2) [symmetric] by (simp add: find_resource_def)
  have res: "find_resource env cfg iso3 level =
           (if length latest = 1 then ([], Inr (Some (hd latest), ''csv''))
            else ([Warning (iso3 @ '': Found multiple resources, using first in list'')],
                  Inr (Some (hd cands), ''csv'')))"
  proof (cases "length latest = 1")
    case True
    then obtain l where "latest = [l]" by (cases latest) auto
    with True show ?thesis by (simp add: fr nb)
  next
    case False
    have "narrow_by_year (r # rs) = Inr (r # rs)"
      using nb False unfolding c by simp
    with False rs show ?thesis by (simp add: fr c)
  qed
  show ?thesis
    using res max_list_mem [OF assms(5)] max_list_upper by blast
qed

text \<open>The witness: of two matching resources named for 2019 and 2021, the one of 2021 is
  selected.\<close>

theorem find_resource_year_choice_witness:
  "find_resource env_years cfg0 ''KEN'' 1 = ([], Inr (Some csv_2021, ''csv''))"
proof -
  have h1: "read_from_hdx env_years
             (case dataset_exceptions cfg0 ''KEN'' of Some n \<Rightarrow> n | None \<Rightarrow> ''cod-ps-'' @ lower ''KEN'') =
           Some [csv_2019, csv_2021]"
    by code_simp
  have h2: "[csv_2019, csv_2021] =
      filter (\<lambda>r. file_type r = ''csv'' \<and> resource_match env_years cfg0 ''KEN'' 1 (name r))
        [csv_2019, csv_2021]"
    by code_simp
  have h3: "1 < length [csv_2019, csv_2021]" by simp
  have h4: "[2019, 2021] =
      map int_of_digits (concat (map (\<lambda>r. findall_year (name r)) [csv_2019, csv_2021]))"
    by code_simp
  have h5: "[2019, 2021] \<noteq> ([] :: nat list)" by simp
  have h6: "[csv_2021] =
      filter (\<lambda>r. contains (str_nat (max_list [2019, 2021])) (name r)) [csv_2019, csv_2021]"
    by code_simp
  from find_resource_year_choice [OF h1 h2 h3 h4 h5 h6] show ?thesis
    by simp
qed

text \<open>
  The counterexample to claim C2 as stated: with candidates named for 2019, 2021 and 2021
  again, two names refer to the greatest year, the list is not narrowed, and the code returns
  the resource of 2019, which is not among the entries of the greatest year.
\<close>

theorem find_resource_max_year_counterexample:
  "find_resource env_tie cfg0 ''KEN'' 1 =
     ([Warning ''KEN: Found multiple resources, using first in list''], Inr (Some csv_2019, ''csv'')) \<and>
   spec_keep_max_year [csv_2019, csv_2021, csv_2021_v2] = [csv_2021, csv_2021_v2] \<and>
   spec_select [csv_2019, csv_2021, csv_2021_v2] = Some csv_2021 \<and>
   csv_2019 \<noteq> csv_2021"
  by code_simp

section \<open>Properties of \<open>analyze_raster\<close>\<close>

lemma floor_rat_numeral: "\<lfloor>numeral a / numeral b :: rat\<rfloor> = numeral a div numeral b"
  by (metis floor_divide_of_int_eq of_int_numeral)

lemma py_round_cases:
  fixes x :: rat
  defines "f \<equiv> \<lfloor>x\<rfloor>"
  shows "of_int f \<le> x \<and> x < of_int f + 1 \<and>
         py_round x = (if x - of_int f < 1 / 2 then f else if 1 / 2 < x - of_int f then f + 1
                       else if even f then f else f + 1)"
proof -
  have "of_int f \<le> x" and "x < of_int f + 1"
    unfolding f_def by linarith+
  then show ?thesis
    unfolding py_round_def Let_def f_def by blast
qed

lemma py_round_nearest: "\<bar>of_int (py_round x) - x\<bar> \<le> 1 / 2"
proof -
  obtain f :: int where "of_int f \<le> x" "x < of_int f + 1"
    "py_round x = (if x - of_int f < 1 / 2 then f else if 1 / 2 < x - of_int f then f + 1
                       else if even f then f else f + 1)"
    using py_round_cases [of x] by blast
  then show ?thesis
    by (auto split: if_splits)
qed

lemma py_round_tie_even: "\<bar>of_int (py_round x) - x\<bar> = 1 / 2 \<Longrightarrow> even (py_round x)"
proof -
  assume tie: "\<bar>of_int (py_round x) - x\<bar> = 1 / 2"
  obtain f :: int where "of_int f \<le> x" "x < of_int f + 1"
    "py_round x = (if x - of_int f < 1 / 2 then f else if 1 / 2 < x - of_int f then f + 1
                       else if even f then f else f + 1)"
    using py_round_cases [of x] by blast
  with tie show ?thesis
    by (auto split: if_splits)
qed

lemma foldl_raster_row:
  "distinct (map fst stats) \<Longrightarrow>
   foldl raster_row b stats =
     map (\<lambda>r. case map_of stats (ADM_PCODE r) of
                Some (Some s) \<Rightarrow> if s \<noteq> 0 then r\<lparr>Population := IntV (py_round s)\<rparr> else r
              | _ \<Rightarrow> r) b"
proof (induction stats arbitrary: b)
  case Nil
  then show ?case by simp
next
  case (Cons x xs)
  obtain p s where x: "x = (p, s)" by (cases x)
  from Cons.prems x have notin: "map_of xs p = None" and d: "distinct (map fst xs)"
    by (auto simp: map_of_eq_None_iff)
  show ?case
    unfolding foldl_Cons Cons.IH [OF d] x
    using notin
    by (auto simp: raster_row_def set_population_def split: option.splits)
qed

lemma pop_stats_lookup:
  assumes "distinct (scope_pcodes b iso3 level)" and "i < length b"
    and "alpha_3 (b ! i) = iso3" and "ADM_LEVEL (b ! i) = level"
  shows "map_of (pop_stats env pop_raster b iso3 level) (ADM_PCODE (b ! i)) =
           Some (zonal_sum env pop_raster (geometry (b ! i)))"
proof -
  have "(ADM_PCODE (b ! i), zonal_sum env pop_raster (geometry (b ! i)))
          \<in> set (pop_stats env pop_raster b iso3 level)"
    using assms(2-4) by (force simp: pop_stats_def)
  moreover have "distinct (map fst (pop_stats env pop_raster b iso3 level))"
    using assms(1) by (simp add: pop_stats_def scope_pcodes_def comp_def)
  ultimately show ?thesis by (rule map_of_is_SomeI [rotated])
qed

lemma distinct_fst_pop_stats:
  "distinct (scope_pcodes b iso3 level) \<Longrightarrow> distinct (map fst (pop_stats env pop_raster b iso3 level))"
  by (simp add: pop_stats_def scope_pcodes_def comp_def)

text \<open>
  Claim C4, as amended.  Let the download succeed and let the pcodes of the rows of the
  country and level be distinct.  For a row of the country and level whose polygon has a
  defined sum other than zero, the population after the call is the sum rounded to the
  nearest integer, a tie going to the even integer; for a row whose polygon has no sum
  (or the sum zero), the population is the one before the call.
\<close>

theorem analyze_raster_rounding:
  assumes "download env resource = Some pop_raster"
    and "distinct (scope_pcodes b iso3 level)"
    and "i < length b" and "alpha_3 (b ! i) = iso3" and "ADM_LEVEL (b ! i) = level"
    and "b' = fst (analyze_raster env b resource iso3 level)"
  shows "length b' = length b \<and>
    Population (b' ! i) =
      (case zonal_sum env pop_raster (geometry (b ! i)) of
         None \<Rightarrow> Population (b ! i)
       | Some s \<Rightarrow> if s \<noteq> 0 then IntV (py_round s) else Population (b ! i)) \<and>
    (\<forall>s. \<bar>of_int (py_round s) - s\<bar> \<le> 1 / 2 \<and>
         (\<bar>of_int (py_round s) - s\<bar> = 1 / 2 \<longrightarrow> even (py_round s)))"
proof -
  let ?stats = "pop_stats env pop_raster b iso3 level"
  have b': "b' = foldl raster_row b ?stats"
    using assms(1,6) by (simp add: analyze_raster_def)
  have look: "map_of ?stats (ADM_PCODE (b ! i)) = Some (zonal_sum env pop_raster (geometry (b ! i)))"
    using assms(2-5) by (rule pop_stats_lookup)
  have tab: "b' = map (\<lambda>r. case map_of ?stats (ADM_PCODE r) of
                Some (Some s) \<Rightarrow> if s \<noteq> 0 then r\<lparr>Population := IntV (py_round s)\<rparr> else r
              | _ \<Rightarrow> r) b"
    unfolding b' by (rule foldl_raster_row [OF distinct_fst_pop_stats [OF assms(2)]])
  have len: "length b' = length b" by (simp add: tab)
  have nth: "Population (b' ! i) =
      (case zonal_sum env pop_raster (geometry (b ! i)) of
         None \<Rightarrow> Population (b ! i)
       | Some s \<Rightarrow> if s \<noteq> 0 then IntV (py_round s) else Population (b ! i))"
    using assms(3) by (simp add: tab look split: option.splits)
  show ?thesis
    using len nth py_round_nearest py_round_tie_even by blast
qed

text \<open>The witness: the sums 1234.4 and 3.5 are stored as 1234 and 4, and a polygon without
  a sum leaves the null population.\<close>

theorem analyze_raster_rounding_witness:
  "Population (fst (analyze_raster (env_raster (Some (12344 / 10))) [ken1, uga1] tif_res ''KEN'' 1) ! 0) =
     IntV 1234 \<and>
   Population (fst (analyze_raster (env_raster (Some (7 / 2))) [ken1, uga1] tif_res ''KEN'' 1) ! 0) =
     IntV 4 \<and>
   Population (fst (analyze_raster (env_raster None) [ken1, uga1] tif_res ''KEN'' 1) ! 0) = NoneV"
proof -
  have d: "\<And>s. download (env_raster s) tif_res = Some ''/tmp/ken.tif''"
    by (simp add: env_raster_def env_base_def)
  have u: "distinct (scope_pcodes [ken1, uga1] ''KEN'' 1)"
    by (simp add: scope_pcodes_def ken1_def uga1_def)
  have i: "0 < length [ken1, uga1]" by simp
  have a: "alpha_3 ([ken1, uga1] ! 0) = ''KEN''" by (simp add: ken1_def)
  have l: "ADM_LEVEL ([ken1, uga1] ! 0) = 1" by (simp add: ken1_def)
  have z: "\<And>s. zonal_sum (env_raster s) ''/tmp/ken.tif'' (geometry ken1) = s"
    by (simp add: env_raster_def env_base_def ken1_def)
  have p: "Population ken1 = NoneV" by (simp add: ken1_def)
  show ?thesis
    using analyze_raster_rounding [OF d u i a l refl, of "Some (12344 / 10)", THEN conjunct2, THEN conjunct1]
      analyze_raster_rounding [OF d u i a l refl, of "Some (7 / 2)", THEN conjunct2, THEN conjunct1]
      analyze_raster_rounding [OF d u i a l refl, of None, THEN conjunct2, THEN conjunct1]
    by (simp add: z p py_round_def Let_def floor_rat_numeral)
qed

text \<open>The counterexample to claim C4 as stated: the sum 2.5 is stored as 2, where rounding
  half up gives 3.\<close>

theorem analyze_raster_half_up_counterexample:
  "analyze_raster (env_raster (Some (5 / 2))) [ken1, uga1] tif_res ''KEN'' 1 =
     ([ken1\<lparr>Population := IntV 2\<rparr>, uga1], [], Some ''KEN'') \<and>
   round_half_up (5 / 2) = 3"
  by code_simp



text \<open>
  Claim C9: a polygon whose sum is zero is handled as a polygon without a sum.  The loop
  body leaves the table as it is, and after the call the row of the polygon is the row before
  the call (the download succeeding and the pcodes of the country and level being distinct).
\<close>

theorem analyze_raster_zero_sum:
  assumes "download env resource = Some pop_raster"
    and "distinct (scope_pcodes b iso3 level)"
    and "i < length b" and "alpha_3 (b ! i) = iso3" and "ADM_LEVEL (b ! i) = level"
    and "zonal_sum env pop_raster (geometry (b ! i)) = Some 0"
  shows "raster_row b (ADM_PCODE (b ! i), Some 0) = b \<and>
         fst (analyze_raster env b resource iso3 level) ! i = b ! i"
proof -
  let ?stats = "pop_stats env pop_raster b iso3 level"
  have look: "map_of ?stats (ADM_PCODE (b ! i)) = Some (Some 0)"
    using pop_stats_lookup [OF assms(2-5), of env pop_raster] assms(6) by simp
  have "fst (analyze_raster env b resource iso3 level) = foldl raster_row b ?stats"
    using assms(1) by (simp add: analyze_raster_def)
  also have "\<dots> = map (\<lambda>r. case map_of ?stats (ADM_PCODE r) of
                Some (Some s) \<Rightarrow> if s \<noteq> 0 then r\<lparr>Population := IntV (py_round s)\<rparr> else r
              | _ \<Rightarrow> r) b"
    by (rule foldl_raster_row [OF distinct_fst_pop_stats [OF assms(2)]])
  finally show ?thesis
    using assms(3) look by (simp add: raster_row_def)
qed

text \<open>The witness: the polygon of \<open>ken1\<close> has the sum zero.\<close>

theorem analyze_raster_zero_sum_witness:
  "fst (analyze_raster (env_raster (Some 0)) [ken1, uga1] tif_res ''KEN'' 1) ! 0 = ken1"
proof -
  have d: "download (env_raster (Some 0)) tif_res = Some ''/tmp/ken.tif''"
    by (simp add: env_raster_def env_base_def)
  have u: "distinct (scope_pcodes [ken1, uga1] ''KEN'' 1)"
    by (simp add: scope_pcodes_def ken1_def uga1_def)
  have i: "0 < length [ken1, uga1]" by simp
  have a: "alpha_3 ([ken1, uga1] ! 0) = ''KEN''" by (simp add: ken1_def)
  have l: "ADM_LEVEL ([ken1, uga1] ! 0) = 1" by (simp add: ken1_def)
  have z: "zonal_sum (env_raster (Some 0)) ''/tmp/ken.tif'' (geometry ([ken1, uga1] ! 0)) = Some 0"
    by (simp add: env_raster_def env_base_def ken1_def)
  from analyze_raster_zero_sum [OF d u i a l z] show ?thesis
    by simp
qed

section \<open>Properties of \<open>analyze_tabular\<close>\<close>

lemma known_pcodes_set_population: "known_pcodes (set_population p v b) = known_pcodes b"
  by (induction b) (simp_all add: known_pcodes_def set_population_def)

lemma tabular_row_miss:
  "x ph \<notin> set (known_pcodes b) \<Longrightarrow>
   tabular_row iso3 level ph qh (b, logs, u) x = (b, logs @ [unit_warning iso3 level (x ph)], u)"
  by (simp add: tabular_row_def)

lemma tabular_row_hit:
  "x ph \<in> set (known_pcodes b) \<Longrightarrow>
   tabular_row iso3 level ph qh (b, logs, u) x = (set_population (x ph) (x qh) b, logs, True)"
  by (simp add: tabular_row_def)

lemma foldl_tabular_row:
  "foldl (tabular_row iso3 level ph qh) (b, logs, u) rows =
     (map (\<lambda>r. case find (\<lambda>row. row ph = StrV (ADM_PCODE r)) (rev rows) of
                 None \<Rightarrow> r | Some row \<Rightarrow> r\<lparr>Population := row qh\<rparr>) b,
      logs @ map (\<lambda>row. unit_warning iso3 level (row ph))
               (filter (\<lambda>row. row ph \<notin> set (known_pcodes b)) rows),
      u \<or> (\<exists>row\<in>set rows. row ph \<in> set (known_pcodes b)))"
proof (induction rows rule: rev_induct)
  case Nil
  then show ?case by simp
next
  case (snoc x xs)
  let ?g = "\<lambda>r. case find (\<lambda>row. row ph = StrV (ADM_PCODE r)) (rev xs) of
                 None \<Rightarrow> r | Some row \<Rightarrow> r\<lparr>Population := row qh\<rparr>"
  let ?g' = "\<lambda>r. case find (\<lambda>row. row ph = StrV (ADM_PCODE r)) (rev (xs @ [x])) of
                 None \<Rightarrow> r | Some row \<Rightarrow> r\<lparr>Population := row qh\<rparr>"
  have pc: "known_pcodes (map ?g b) = known_pcodes b"
    by (induction b) (simp_all add: known_pcodes_def split: option.splits)
  have step: "foldl (tabular_row iso3 level ph qh) (b, logs, u) (xs @ [x]) =
      tabular_row iso3 level ph qh
        (map ?g b,
         logs @ map (\<lambda>row. unit_warning iso3 level (row ph))
                  (filter (\<lambda>row. row ph \<notin> set (known_pcodes b)) xs),
         u \<or> (\<exists>row\<in>set xs. row ph \<in> set (known_pcodes b))) x"
    by (simp only: foldl_append foldl_Cons foldl_Nil snoc.IH)
  show ?case
  proof (cases "x ph \<in> set (known_pcodes b)")
    case True
    have "set_population (x ph) (x qh) (map ?g b) = map ?g' b"
      by (auto simp: set_population_def split: option.splits)
    with True show ?thesis
      unfolding step by (simp add: tabular_row_hit pc)
  next
    case False
    have "map ?g b = map ?g' b"
      using False by (auto simp: known_pcodes_def)
    with False show ?thesis
      unfolding step by (simp add: tabular_row_miss pc)
  qed
qed

lemma header_step_pair:
  "header_step names (p, q) h =
     (if \<not> truthy p \<and> upper h \<in> set names then Some h else p,
      if \<not> truthy q \<and> upper h = ''T_TL'' then Some h else q)"
  by (simp add: header_step_def)

lemma header_step_truthy_fst:
  "truthy p \<Longrightarrow> fst (foldl (header_step names) (p, q) hs) = p"
  by (induction hs arbitrary: q) (simp_all add: header_step_pair)

lemma header_step_truthy_snd:
  "truthy q \<Longrightarrow> snd (foldl (header_step names) (p, q) hs) = q"
  by (induction hs arbitrary: p) (simp_all add: header_step_pair)

lemma truthy_Some: "truthy (Some h) = (h \<noteq> [])"
  by (simp add: truthy_def)

lemma resolve_pcode_header:
  "\<not> truthy p \<Longrightarrow>
   truthy (fst (foldl (header_step names) (p, q) hs)) =
     (\<exists>h\<in>set hs. h \<noteq> [] \<and> upper h \<in> set names) \<and>
   (truthy (fst (foldl (header_step names) (p, q) hs)) \<longrightarrow>
      fst (foldl (header_step names) (p, q) hs) = find (\<lambda>h. h \<noteq> [] \<and> upper h \<in> set names) hs)"
proof (induction hs arbitrary: p q)
  case Nil
  then show ?case by simp
next
  case (Cons h hs)
  show ?case
  proof (cases "h \<noteq> [] \<and> upper h \<in> set names")
    case True
    then have t: "truthy (Some h)" by (simp add: truthy_Some)
    have "fst (foldl (header_step names) (p, q) (h # hs)) = Some h"
      using True Cons.prems by (simp add: header_step_pair header_step_truthy_fst [OF t])
    with True t show ?thesis by simp
  next
    case False
    obtain p' q' where s: "header_step names (p, q) h = (p', q')" by (cases "header_step names (p, q) h")
    have "\<not> truthy p'"
      using False Cons.prems s by (auto simp: header_step_pair truthy_Some split: if_splits)
    from Cons.IH [OF this, of q'] False s show ?thesis
      by auto
  qed
qed

lemma resolve_pop_header:
  "\<not> truthy q \<Longrightarrow>
   truthy (snd (foldl (header_step names) (p, q) hs)) = (\<exists>h\<in>set hs. upper h = ''T_TL'') \<and>
   (truthy (snd (foldl (header_step names) (p, q) hs)) \<longrightarrow>
      snd (foldl (header_step names) (p, q) hs) = find (\<lambda>h. upper h = ''T_TL'') hs)"
proof (induction hs arbitrary: p q)
  case Nil
  then show ?case by simp
next
  case (Cons h hs)
  show ?case
  proof (cases "upper h = ''T_TL''")
    case True
    then have "h \<noteq> []" by (auto simp: upper_def)
    then have t: "truthy (Some h)" by (simp add: truthy_Some)
    have "snd (foldl (header_step names) (p, q) (h # hs)) = Some h"
      using True Cons.prems by (simp add: header_step_pair header_step_truthy_snd [OF t])
    with True t show ?thesis by simp
  next
    case False
    obtain p' q' where s: "header_step names (p, q) h = (p', q')" by (cases "header_step names (p, q) h")
    have "\<not> truthy q'"
      using False Cons.prems s by (auto simp: header_step_pair split: if_splits)
    from Cons.IH [OF this, of p'] False s show ?thesis
      by auto
  qed
qed

lemma analyze_tabular_resolved:
  assumes "get_tabular_rows env (url resource) = (headers, rows)"
    and "resolve_headers cfg level headers = (Some ph, Some qh)"
    and "ph \<noteq> []" and "qh \<noteq> []"
  shows "analyze_tabular env cfg b resource iso3 level =
           (case foldl (tabular_row iso3 level ph qh) (b, [], False) rows of
              (b', logs, updated) \<Rightarrow> (b', logs, if updated then Some iso3 else None))"
  using assms by (simp add: analyze_tabular_def truthy_Some)

lemma known_pcodes_foldl_tabular_row:
  "known_pcodes (fst (foldl (tabular_row iso3 level ph qh) (b, logs, u) rows)) = known_pcodes b"
  unfolding foldl_tabular_row fst_conv
  by (induction b) (simp_all add: known_pcodes_def split: option.splits)

lemma resolve_headers_example:
  "resolve_headers cfg0 1 [''ADM1_PCODE'', ''T_TL''] = (Some ''ADM1_PCODE'', Some ''T_TL'')"
  by code_simp

text \<open>
  Claim C3, as amended.  The pcode of a streamed row is looked up among the pcodes of the
  whole boundary table, of every country and level.  When it is not among them, a warning is
  emitted, the table stays as it is and so does the outcome of the call.  When it is among
  them, the population cell of the row is written onto every boundary row with that pcode,
  whatever its country and level, no other boundary row changes, no warning is emitted and
  the call will return the country code.  The effect of a row is stated as the difference
  between the call on the rows before it and the call on these rows followed by it.
\<close>

theorem analyze_tabular_row_effect:
  assumes "get_tabular_rows env (url resource) = (headers, rows)"
    and "get_tabular_rows env' (url resource) = (headers, rows @ [row])"
    and "resolve_headers cfg level headers = (Some pcode_header, Some pop_header)"
    and "pcode_header \<noteq> []" and "pop_header \<noteq> []"
    and "analyze_tabular env cfg b resource iso3 level = (b1, logs1, res1)"
    and "analyze_tabular env' cfg b resource iso3 level = (b2, logs2, res2)"
  shows "known_pcodes b1 = known_pcodes b \<and>
    (row pcode_header \<notin> set (known_pcodes b) \<longrightarrow>
       b2 = b1 \<and> logs2 = logs1 @ [unit_warning iso3 level (row pcode_header)] \<and> res2 = res1) \<and>
    (row pcode_header \<in> set (known_pcodes b) \<longrightarrow>
       b2 = map (\<lambda>r. if StrV (ADM_PCODE r) = row pcode_header
                      then r\<lparr>Population := row pop_header\<rparr> else r) b1 \<and>
       logs2 = logs1 \<and> res2 = Some iso3)"
proof -
  let ?f = "tabular_row iso3 level pcode_header pop_header"
  obtain c l u where st: "foldl ?f (b, [], False) rows = (c, l, u)"
    by (cases "foldl ?f (b, [], False) rows")
  have one: "(b1, logs1, res1) = (c, l, if u then Some iso3 else None)"
    using analyze_tabular_resolved [OF assms(1,3,4,5), of b iso3] assms(6) st by simp
  have kc: "known_pcodes c = known_pcodes b"
    using known_pcodes_foldl_tabular_row [of iso3 level pcode_header pop_header b "[]" False rows] st
    by simp
  have two: "(b2, logs2, res2) =
      (case ?f (c, l, u) row of (b', logs, updated) \<Rightarrow> (b', logs, if updated then Some iso3 else None))"
    using analyze_tabular_resolved [OF assms(2,3,4,5), of b iso3] assms(7) st by simp
  show ?thesis
  proof (cases "row pcode_header \<in> set (known_pcodes b)")
    case True
    then have "?f (c, l, u) row = (set_population (row pcode_header) (row pop_header) c, l, True)"
      by (simp add: tabular_row_hit kc)
    with one two kc True show ?thesis
      by (simp add: set_population_def)
  next
    case False
    then have "?f (c, l, u) row = (c, l @ [unit_warning iso3 level (row pcode_header)], u)"
      by (simp add: tabular_row_miss kc)
    with one two kc False show ?thesis
      by simp
  qed
qed

text \<open>The witness: a row with a pcode of the table after one row, and a row with an unknown
  pcode after two rows.\<close>

theorem analyze_tabular_row_effect_witness:
  "fst (analyze_tabular env_tab2 cfg0 [ken1, uga1] csv_2021 ''KEN'' 1) =
     map (\<lambda>r. if StrV (ADM_PCODE r) = StrV ''KE01'' then r\<lparr>Population := StrV ''500000''\<rparr> else r)
       (fst (analyze_tabular env_tab cfg0 [ken1, uga1] csv_2021 ''KEN'' 1)) \<and>
   snd (analyze_tabular env_tab2 cfg0 [ken1, uga1] csv_2021 ''KEN'' 1) = ([], Some ''KEN'') \<and>
   analyze_tabular env_tab3 cfg0 [ken1, uga1] csv_2021 ''KEN'' 1 =
     (fst (analyze_tabular env_tab2 cfg0 [ken1, uga1] csv_2021 ''KEN'' 1),
      [unit_warning ''KEN'' 1 (StrV ''XX99'')], Some ''KEN'')"
proof -
  let ?a1 = "analyze_tabular env_tab cfg0 [ken1, uga1] csv_2021 ''KEN'' 1"
  let ?a2 = "analyze_tabular env_tab2 cfg0 [ken1, uga1] csv_2021 ''KEN'' 1"
  let ?a3 = "analyze_tabular env_tab3 cfg0 [ken1, uga1] csv_2021 ''KEN'' 1"
  have g1: "get_tabular_rows env_tab (url csv_2021) =
      ([''ADM1_PCODE'', ''T_TL''], [tab_row ''UG01'' ''777''])"
    by (simp add: env_tab_def env_base_def)
  have g2: "get_tabular_rows env_tab2 (url csv_2021) =
      ([''ADM1_PCODE'', ''T_TL''], [tab_row ''UG01'' ''777''] @ [tab_row ''KE01'' ''500000''])"
    by (simp add: env_tab2_def env_base_def)
  have g2': "get_tabular_rows env_tab2 (url csv_2021) =
      ([''ADM1_PCODE'', ''T_TL''], [tab_row ''UG01'' ''777'', tab_row ''KE01'' ''500000''])"
    by (simp add: env_tab2_def env_base_def)
  have g3: "get_tabular_rows env_tab3 (url csv_2021) =
      ([''ADM1_PCODE'', ''T_TL''],
       [tab_row ''UG01'' ''777'', tab_row ''KE01'' ''500000''] @ [tab_row ''XX99'' ''1''])"
    by (simp add: env_tab3_def env_base_def)
  have ne: "''ADM1_PCODE'' \<noteq> []" "''T_TL'' \<noteq> []" by simp_all
  have c1: "?a1 = (fst ?a1, fst (snd ?a1), snd (snd ?a1))"
    and c2: "?a2 = (fst ?a2, fst (snd ?a2), snd (snd ?a2))"
    and c3: "?a3 = (fst ?a3, fst (snd ?a3), snd (snd ?a3))"
    by simp_all
  have l1: "snd ?a1 = ([], Some ''KEN'')" by code_simp
  have hit: "tab_row ''KE01'' ''500000'' ''ADM1_PCODE'' \<in> set (known_pcodes [ken1, uga1])"
    by (simp add: tab_row_def known_pcodes_def ken1_def)
  have miss: "tab_row ''XX99'' ''1'' ''ADM1_PCODE'' \<notin> set (known_pcodes [ken1, uga1])"
    by (simp add: tab_row_def known_pcodes_def ken1_def uga1_def)
  have s1: "fst ?a2 =
      map (\<lambda>r. if StrV (ADM_PCODE r) = StrV ''KE01'' then r\<lparr>Population := StrV ''500000''\<rparr> else r)
        (fst ?a1) \<and> snd ?a2 = ([], Some ''KEN'')"
    using analyze_tabular_row_effect [OF g1 g2 resolve_headers_example ne c1 c2] hit l1
    by (simp add: tab_row_def prod_eq_iff)
  have s2: "?a3 = (fst ?a2, [unit_warning ''KEN'' 1 (StrV ''XX99'')], Some ''KEN'')"
    using analyze_tabular_row_effect [OF g2' g3 resolve_headers_example ne c2 c3] miss s1
    by (simp add: tab_row_def prod_eq_iff)
  from s1 s2 show ?thesis by simp
qed

text \<open>
  The counterexample to claim C3 as stated: in a call for Kenya at level 1 a row carries the
  pcode \<open>UG01\<close>, which is not among the pcodes of Kenya at level 1; no warning is emitted
  and the row of Uganda is overwritten.
\<close>

theorem analyze_tabular_scope_counterexample:
  "''UG01'' \<notin> set (scope_pcodes [ken1, uga1] ''KEN'' 1) \<and>
   analyze_tabular env_tab cfg0 [ken1, uga1] csv_2021 ''KEN'' 1 =
     ([ken1, uga1\<lparr>Population := StrV ''777''\<rparr>], [], Some ''KEN'')"
  by code_simp

text \<open>
  Claim C6: \<open>analyze_tabular\<close> returns \<open>None\<close> exactly when the pcode header is unresolved,
  or the population header is unresolved, or no streamed row carries a pcode of the boundary
  table; otherwise it returns the country code.  The pcode header is resolved exactly when
  some non-empty header, in upper case, is one of the configured templates with the level put
  in, and the population header exactly when some header in upper case is \<open>T_TL\<close>.  When a
  header is unresolved, the table is the one before the call and the only diagnostic is the
  error that names the missing header.
\<close>

theorem analyze_tabular_failure:
  assumes "get_tabular_rows env (url resource) = (headers, rows)"
    and "resolve_headers cfg level headers = (pcode_header, pop_header)"
    and "names = map (replace_hash (str_int level)) (pcode_mappings cfg)"
    and "analyze_tabular env cfg b resource iso3 level = (b', logs, res)"
  shows "truthy pcode_header = (\<exists>h\<in>set headers. h \<noteq> [] \<and> upper h \<in> set names) \<and>
    truthy pop_header = (\<exists>h\<in>set headers. upper h = ''T_TL'') \<and>
    (res = None) =
      (\<not> truthy pcode_header \<or> \<not> truthy pop_header \<or>
       (\<forall>row\<in>set rows. row (the pcode_header) \<notin> set (known_pcodes b))) \<and>
    (res \<noteq> None \<longrightarrow> res = Some iso3) \<and>
    (\<not> truthy pcode_header \<longrightarrow>
       b' = b \<and> logs = [Error (iso3 @ '': Could not find pcode header at adm'' @ str_int level)]) \<and>
    (truthy pcode_header \<and> \<not> truthy pop_header \<longrightarrow>
       b' = b \<and> logs = [Error (iso3 @ '': Could not find pop header at adm'' @ str_int level)])"
proof -
  have nt: "\<not> truthy None" by (simp add: truthy_def)
  have p: "truthy pcode_header = (\<exists>h\<in>set headers. h \<noteq> [] \<and> upper h \<in> set names)"
    using resolve_pcode_header [OF nt, of names None headers] assms(2,3)
    by (simp add: resolve_headers_def)
  have q: "truthy pop_header = (\<exists>h\<in>set headers. upper h = ''T_TL'')"
    using resolve_pop_header [OF nt, of names None headers] assms(2,3)
    by (simp add: resolve_headers_def)
  have rest: "(res = None) =
      (\<not> truthy pcode_header \<or> \<not> truthy pop_header \<or>
       (\<forall>row\<in>set rows. row (the pcode_header) \<notin> set (known_pcodes b))) \<and>
    (res \<noteq> None \<longrightarrow> res = Some iso3) \<and>
    (\<not> truthy pcode_header \<longrightarrow>
       b' = b \<and> logs = [Error (iso3 @ '': Could not find pcode header at adm'' @ str_int level)]) \<and>
    (truthy pcode_header \<and> \<not> truthy pop_header \<longrightarrow>
       b' = b \<and> logs = [Error (iso3 @ '': Could not find pop header at adm'' @ str_int level)])"
  proof (cases "truthy pcode_header \<and> truthy pop_header")
    case True
    then obtain ph qh where hs: "pcode_header = Some ph" "pop_header = Some qh" "ph \<noteq> []" "qh \<noteq> []"
      by (auto simp: truthy_def split: option.splits)
    have "(b', logs, res) =
        (case foldl (tabular_row iso3 level ph qh) (b, [], False) rows of
              (b', logs, updated) \<Rightarrow> (b', logs, if updated then Some iso3 else None))"
      using analyze_tabular_resolved [OF assms(1) assms(2) [unfolded hs] hs(3,4), of b iso3] assms(4)
      by simp
    then have "res = (if \<exists>row\<in>set rows. row ph \<in> set (known_pcodes b) then Some iso3 else None)"
      by (simp add: foldl_tabular_row)
    with True hs show ?thesis by auto
  next
    case False
    with assms(1,2,4) show ?thesis
      by (auto simp: analyze_tabular_def split: if_splits)
  qed
  from p q rest show ?thesis by blast
qed

text \<open>The witness: a call without pcode header, a call without population header, a call
  whose only row is unknown to the table, and a call with a row of the table.\<close>

theorem analyze_tabular_failure_witness:
  "analyze_tabular env_tab cfg0 [ken1, uga1] csv_2021 ''KEN'' 2 =
     ([ken1, uga1], [Error ''KEN: Could not find pcode header at adm2''], None) \<and>
   analyze_tabular env_no_pop_header cfg0 [ken1, uga1] csv_2021 ''KEN'' 1 =
     ([ken1, uga1], [Error ''KEN: Could not find pop header at adm1''], None) \<and>
   snd (snd (analyze_tabular env_tab cfg0 [ken1] csv_2021 ''KEN'' 1)) = None \<and>
   snd (snd (analyze_tabular env_tab2 cfg0 [ken1] csv_2021 ''KEN'' 1)) = Some ''KEN''"
proof -
  let ?a1 = "analyze_tabular env_tab cfg0 [ken1, uga1] csv_2021 ''KEN'' 2"
  let ?a2 = "analyze_tabular env_no_pop_header cfg0 [ken1, uga1] csv_2021 ''KEN'' 1"
  let ?a3 = "analyze_tabular env_tab cfg0 [ken1] csv_2021 ''KEN'' 1"
  let ?a4 = "analyze_tabular env_tab2 cfg0 [ken1] csv_2021 ''KEN'' 1"
  have g1: "get_tabular_rows env_tab (url csv_2021) =
      ([''ADM1_PCODE'', ''T_TL''], [tab_row ''UG01'' ''777''])"
    by (simp add: env_tab_def env_base_def)
  have g2: "get_tabular_rows env_no_pop_header (url csv_2021) =
      ([''ADM1_PCODE'', ''TOTAL''], [tab_row ''KE01'' ''500000''])"
    by (simp add: env_no_pop_header_def env_base_def)
  have g4: "get_tabular_rows env_tab2 (url csv_2021) =
      ([''ADM1_PCODE'', ''T_TL''], [tab_row ''UG01'' ''777'', tab_row ''KE01'' ''500000''])"
    by (simp add: env_tab2_def env_base_def)
  have r1: "resolve_headers cfg0 2 [''ADM1_PCODE'', ''T_TL''] = (None, Some ''T_TL'')"
    by code_simp
  have r2: "resolve_headers cfg0 1 [''ADM1_PCODE'', ''TOTAL''] = (Some ''ADM1_PCODE'', None)"
    by code_simp
  have c1: "?a1 = (fst ?a1, fst (snd ?a1), snd (snd ?a1))"
    and c2: "?a2 = (fst ?a2, fst (snd ?a2), snd (snd ?a2))"
    and c3: "?a3 = (fst ?a3, fst (snd ?a3), snd (snd ?a3))"
    and c4: "?a4 = (fst ?a4, fst (snd ?a4), snd (snd ?a4))"
    by simp_all
  have s2: "str_int 2 = ''2''" and s1: "str_int 1 = ''1''"
    by (simp_all add: str_int_def str_nat.simps digit_char_def)
  have t1: "?a1 = ([ken1, uga1], [Error ''KEN: Could not find pcode header at adm2''], None)"
    using analyze_tabular_failure [OF g1 r1 refl c1, THEN conjunct2, THEN conjunct2]
    by (simp add: truthy_def prod_eq_iff s2)
  have t2: "?a2 = ([ken1, uga1], [Error ''KEN: Could not find pop header at adm1''], None)"
    using analyze_tabular_failure [OF g2 r2 refl c2, THEN conjunct2, THEN conjunct2]
    by (simp add: truthy_def prod_eq_iff s1)
  have t3: "snd (snd ?a3) = None"
    using analyze_tabular_failure [OF g1 resolve_headers_example refl c3, THEN conjunct2, THEN conjunct2]
    by (simp add: truthy_def tab_row_def known_pcodes_def ken1_def)
  have t4: "snd (snd ?a4) = Some ''KEN''"
    using analyze_tabular_failure [OF g4 resolve_headers_example refl c4, THEN conjunct2, THEN conjunct2]
    by (simp add: truthy_def tab_row_def known_pcodes_def ken1_def)
  from t1 t2 t3 t4 show ?thesis by simp
qed

text \<open>
  Claim C10: after the call, the population of a boundary row is the cell that the last
  streamed row with the pcode of the boundary row has under the population header, as the
  row delivers it; it is the population before the call when no streamed row has that pcode.
\<close>

theorem analyze_tabular_raw_value:
  assumes "get_tabular_rows env (url resource) = (headers, rows)"
    and "resolve_headers cfg level headers = (Some pcode_header, Some pop_header)"
    and "pcode_header \<noteq> []" and "pop_header \<noteq> []"
    and "i < length b"
    and "b' = fst (analyze_tabular env cfg b resource iso3 level)"
  shows "length b' = length b \<and>
    Population (b' ! i) =
      (case find (\<lambda>row. row pcode_header = StrV (ADM_PCODE (b ! i))) (rev rows) of
         None \<Rightarrow> Population (b ! i)
       | Some row \<Rightarrow> row pop_header)"
proof -
  have "b' = map (\<lambda>r. case find (\<lambda>row. row pcode_header = StrV (ADM_PCODE r)) (rev rows) of
                 None \<Rightarrow> r | Some row \<Rightarrow> r\<lparr>Population := row pop_header\<rparr>) b"
    using analyze_tabular_resolved [OF assms(1-4), of b iso3] assms(6)
    by (simp add: foldl_tabular_row)
  with assms(5) show ?thesis
    by (simp split: option.splits)
qed

text \<open>The witness: the text \<open>500000\<close> of the cell is stored as text.\<close>

theorem analyze_tabular_raw_value_witness:
  "Population (fst (analyze_tabular env_tab2 cfg0 [ken1, uga1] csv_2021 ''KEN'' 1) ! 0) =
     StrV ''500000''"
proof -
  have g: "get_tabular_rows env_tab2 (url csv_2021) =
      ([''ADM1_PCODE'', ''T_TL''], [tab_row ''UG01'' ''777'', tab_row ''KE01'' ''500000''])"
    by (simp add: env_tab2_def env_base_def)
  have ne: "''ADM1_PCODE'' \<noteq> []" "''T_TL'' \<noteq> []" by simp_all
  have i: "0 < length [ken1, uga1]" by simp
  from analyze_tabular_raw_value [OF g resolve_headers_example ne i refl, of "''KEN''"]
  show ?thesis
    by (simp add: tab_row_def ken1_def)
qed

section \<open>Properties of \<open>update_population\<close>\<close>






















section \<open>Properties of \<open>update_hdx_resource\<close>\<close>

text \<open>
  Claim C7 says that the fresh rows of every updated slice are in the result.  The code
  drops rows by label.  \<open>concat\<close> keeps the labels of the boundary table, so after the first
  level the merged table can hold a fresh row and a prior row under the same label; the
  \<open>drop\<close> of the next level then removes both.  Here the fresh row of \<open>AAA\<close> at level 1 has
  the label 0, as the prior row of \<open>BBB\<close> at level 2 has: the result holds the fresh row of
  \<open>BBB\<close> only, where the specification's merge holds both fresh rows.
\<close>

theorem update_hdx_resource_loses_rows:
  "update_hdx_resource env_merge [aaa1, bbb2] ''overall-pop'' [(1, [''AAA'']), (2, [''BBB''])] =
     ([], Inr (Some [drop_geometry bbb2], Some overall_res)) \<and>
   spec_merge (map drop_geometry [aaa1, bbb2]) (range_index [old_bbb2, old_aaa1])
       [(1, [''AAA'']), (2, [''BBB''])] =
     [drop_geometry aaa1, drop_geometry bbb2]"
  by code_simp

end
